theory Spec2Isabelle
  imports Main
begin

section \<open>JavaScript values\<close>

text \<open>
  The plugin API of \<^verbatim>\<open>edit-post/api/plugin.js\<close> validates untyped arguments, so
  its model works on a datatype of JavaScript values. Numbers are the integral ones
  that JavaScript prints digit by digit (below \<open>10\<^sup>2\<^sup>1\<close> in magnitude), a function
  is opaque and identified by its source text, \<open>JObjectPrototype\<close> is the
  built-in \<^verbatim>\<open>Object.prototype\<close>, and \<open>JObj\<close> is a plain data object: its own
  properties in insertion order, \<^verbatim>\<open>Object.prototype\<close> as its prototype, no
  accessors and no conversion methods of its own. Strings are lists of 8-bit characters.
\<close>

datatype jsval =
    JUndefined
  | JNull
  | JBool bool
  | JNum int
  | JStr string
  | JFun string
  | JObjectPrototype
  | JObj "(string \<times> jsval) list"

type_synonym obj = "(string \<times> jsval) list"

fun typeof :: "jsval \<Rightarrow> string" where
  "typeof JUndefined = ''undefined''"
| "typeof JNull = ''object''"
| "typeof (JBool b) = ''boolean''"
| "typeof (JNum n) = ''number''"
| "typeof (JStr s) = ''string''"
| "typeof (JFun f) = ''function''"
| "typeof JObjectPrototype = ''object''"
| "typeof (JObj ps) = ''object''"

text \<open>The truthiness that \<^verbatim>\<open>if ( v )\<close>, \<^verbatim>\<open>v || w\<close> and \<^verbatim>\<open>v && w\<close> test.\<close>

fun truthy :: "jsval \<Rightarrow> bool" where
  "truthy JUndefined = False"
| "truthy JNull = False"
| "truthy (JBool b) = b"
| "truthy (JNum n) = (n \<noteq> 0)"
| "truthy (JStr s) = (s \<noteq> [])"
| "truthy (JFun f) = True"
| "truthy JObjectPrototype = True"
| "truthy (JObj ps) = True"

text \<open>lodash's \<^verbatim>\<open>isFunction\<close>.\<close>

fun isFunction :: "jsval \<Rightarrow> bool" where
  "isFunction (JFun f) = True"
| "isFunction v = False"

subsection \<open>Property reads and writes\<close>

text \<open>
  The function-valued properties every object inherits from an unmodified
  \<^verbatim>\<open>Object.prototype\<close>.
\<close>

definition object_prototype_functions :: "string list" where
  "object_prototype_functions =
     [''constructor'', ''hasOwnProperty'', ''isPrototypeOf'', ''propertyIsEnumerable'',
      ''toLocaleString'', ''toString'', ''valueOf'', ''__defineGetter__'',
      ''__defineSetter__'', ''__lookupGetter__'', ''__lookupSetter__'']"

definition native_function :: "string \<Rightarrow> jsval" where
  "native_function k =
     JFun (''function '' @ (if k = ''constructor'' then ''Object'' else k)
             @ ''() { [native code] }'')"

definition object_prototype_member :: "string \<Rightarrow> jsval" where
  "object_prototype_member k =
     (if k = ''__proto__'' then JNull
      else if k \<in> set object_prototype_functions then native_function k
      else JUndefined)"

text \<open>\<^verbatim>\<open>o[ k ]\<close> on a plain object: the own property, else the inherited one.\<close>

definition member :: "obj \<Rightarrow> string \<Rightarrow> jsval" where
  "member ps k =
     (if k = ''__proto__'' then JObjectPrototype
      else case map_of ps k of Some v \<Rightarrow> v | None \<Rightarrow> object_prototype_member k)"

text \<open>\<^verbatim>\<open>o[ k ] = v\<close> for an own data property: overwritten in place, or appended.\<close>

fun own_set :: "obj \<Rightarrow> string \<Rightarrow> jsval \<Rightarrow> obj" where
  "own_set [] k v = [(k, v)]"
| "own_set ((k', v') # ps) k v =
     (if k' = k then (k, v) # ps else (k', v') # own_set ps k v)"

text \<open>
  \<^verbatim>\<open>v.uiType\<close> on a value that is neither \<^verbatim>\<open>null\<close> nor
  \<^verbatim>\<open>undefined\<close>. None of the built-in prototypes has a property of that name, so
  only a plain object's own property can give a value.
\<close>

fun uiType_of :: "jsval \<Rightarrow> jsval" where
  "uiType_of (JObj ps) = member ps ''uiType''"
| "uiType_of v = JUndefined"

subsection \<open>Property keys\<close>

text \<open>The conversion of a value to a property key, as \<^verbatim>\<open>o[ v ]\<close> applies it.\<close>

definition digit_char :: "nat \<Rightarrow> char" where
  "digit_char d = ''0123456789'' ! (d mod 10)"

function decimal :: "nat \<Rightarrow> string" where
  "decimal n = (if n < 10 then [digit_char n] else decimal (n div 10) @ [digit_char n])"
  by pat_completeness auto
termination
  by (relation "measure id") auto

fun to_property_key :: "jsval \<Rightarrow> string" where
  "to_property_key JUndefined = ''undefined''"
| "to_property_key JNull = ''null''"
| "to_property_key (JBool b) = (if b then ''true'' else ''false'')"
| "to_property_key (JNum n) = (if n < 0 then ''-'' @ decimal (nat (- n)) else decimal (nat n))"
| "to_property_key (JStr s) = s"
| "to_property_key (JFun f) = f"
| "to_property_key JObjectPrototype = ''[object Object]''"
| "to_property_key (JObj ps) = ''[object Object]''"

subsection \<open>Objects used as dictionaries\<close>

text \<open>
  \<^verbatim>\<open>this.plugins\<close> and \<^verbatim>\<open>this.pluginUIComponents\<close> start as
  \<^verbatim>\<open>{}\<close> and only ever receive plain objects under computed keys. Such a
  dictionary is its own properties and its prototype: \<open>None\<close> is
  \<^verbatim>\<open>Object.prototype\<close>, and an assignment to the key \<^verbatim>\<open>__proto__\<close>
  replaces the prototype instead of creating a property.
\<close>

record dict =
  own :: obj
  proto :: "obj option"

definition empty_dict :: dict where
  "empty_dict = \<lparr>own = [], proto = None\<rparr>"

definition dict_get :: "dict \<Rightarrow> string \<Rightarrow> jsval" where
  "dict_get d k =
     (if k = ''__proto__'' then (case proto d of None \<Rightarrow> JObjectPrototype | Some ps \<Rightarrow> JObj ps)
      else case map_of (own d) k of
             Some v \<Rightarrow> v
           | None \<Rightarrow> (case proto d of None \<Rightarrow> object_prototype_member k | Some ps \<Rightarrow> member ps k))"

definition dict_set :: "dict \<Rightarrow> string \<Rightarrow> obj \<Rightarrow> dict" where
  "dict_set d k v =
     (if k = ''__proto__'' then d\<lparr>proto := Some v\<rparr>
      else d\<lparr>own := own_set (own d) k (JObj v)\<rparr>)"

section \<open>The plugin registry\<close>

record PluginRegistry =
  plugins :: dict
  pluginUIComponents :: dict

text \<open>The constructor.\<close>

definition new_PluginRegistry :: PluginRegistry where
  "new_PluginRegistry = \<lparr>plugins = empty_dict, pluginUIComponents = empty_dict\<rparr>"

text \<open>A call either returns a value or throws.\<close>

datatype error = TypeError | Error string

datatype outcome = Returned jsval | Threw error

text \<open>\<^verbatim>\<open>/^[a-z][a-z0-9-]*$/.test( name )\<close>\<close>

definition lower_char :: "char \<Rightarrow> bool" where
  "lower_char c = (c \<in> set ''abcdefghijklmnopqrstuvwxyz'')"

definition digit :: "char \<Rightarrow> bool" where
  "digit c = (c \<in> set ''0123456789'')"

fun plugin_name_pattern :: "string \<Rightarrow> bool" where
  "plugin_name_pattern [] = False"
| "plugin_name_pattern (c # cs) =
     (lower_char c \<and> list_all (\<lambda>x. lower_char x \<or> digit x \<or> x = CHR ''-'') cs)"

definition msg_no_settings :: string where
  "msg_no_settings = ''No settings object provided!''"

definition msg_name_string :: string where
  "msg_name_string = ''Plugin names must be strings.''"

definition msg_name_pattern :: string where
  "msg_name_pattern =
     ''Plugin names must include only lowercase alphanumeric characters or dashes, and start with a letter. Example: ''
       @ [CHR 0x22] @ ''my-plugin'' @ [CHR 0x22] @ ''.''"

definition msg_already_registered :: "string \<Rightarrow> string" where
  "msg_already_registered name =
     ''Plugin '' @ [CHR 0x22] @ name @ [CHR 0x22] @ '' is already registered.''"

definition msg_render :: string where
  "msg_render = ''The '' @ [CHR 0x22] @ ''render'' @ [CHR 0x22]
       @ '' property must be specified and must be a valid function.''"

text \<open>
  \<^verbatim>\<open>registerPlugin( settings )\<close>. The result is the outcome of the call, the
  registry after it and the messages it passed to \<^verbatim>\<open>console.error\<close>, in
  order. \<^verbatim>\<open>applyFilters\<close> belongs to the hooks package; the model takes, as a
  parameter, what it makes of the settings and the name for the hook
  \<^verbatim>\<open>editPost.registerPlugin\<close>: a plain settings object again.
\<close>

definition registerPlugin ::
  "(obj \<Rightarrow> jsval \<Rightarrow> obj) \<Rightarrow> PluginRegistry \<Rightarrow> jsval \<Rightarrow> outcome \<times> PluginRegistry \<times> string list"
where
  "registerPlugin applyFilters this settings =
     (if typeof settings \<noteq> ''object'' then (Returned JNull, this, [msg_no_settings])
      else case settings of
        JNull \<Rightarrow> (Threw TypeError, this, [])
      | JObj ps \<Rightarrow>
          (case member ps ''name'' of
             JStr name \<Rightarrow>
               if \<not> plugin_name_pattern name then (Returned JNull, this, [msg_name_pattern])
               else
                 let logged = (if truthy (dict_get (plugins this) name)
                               then [msg_already_registered name] else [])
                 in if \<not> isFunction (member ps ''render'')
                    then (Returned JNull, this, logged @ [msg_render])
                    else
                      let settings1 = own_set ps ''sidebar'' (JObj []);
                          settings2 = applyFilters settings1 (member settings1 ''name'')
                      in (Returned (JObj settings2),
                          this\<lparr>plugins :=
                                 dict_set (plugins this)
                                   (to_property_key (member settings2 ''name'')) settings2\<rparr>,
                          logged)
           | _ \<Rightarrow> (Returned JNull, this, [msg_name_string]))
      | _ \<Rightarrow> (Returned JNull, this, [msg_name_string]))"

text \<open>
  \<^verbatim>\<open>registerUIComponent( pluginName, uiNamespacedName, uiType )\<close>, on the three
  strings its documentation asks for.
\<close>

definition ui_component :: "string \<Rightarrow> string \<Rightarrow> obj" where
  "ui_component pluginName uiType =
     [(''pluginName'', JStr pluginName), (''uiType'', JStr uiType)]"

definition registerUIComponent ::
  "PluginRegistry \<Rightarrow> string \<Rightarrow> string \<Rightarrow> string \<Rightarrow> PluginRegistry"
where
  "registerUIComponent this pluginName uiNamespacedName uiType =
     this\<lparr>pluginUIComponents :=
            dict_set (pluginUIComponents this) uiNamespacedName
              (ui_component pluginName uiType)\<rparr>"

text \<open>
  \<^verbatim>\<open>getRegisteredUIComponent( uiNamespacedName, uiType = null )\<close>; the optional
  type is \<open>None\<close> when it is omitted or \<^verbatim>\<open>null\<close>.
\<close>

definition or_null :: "jsval \<Rightarrow> jsval" where
  "or_null v = (if truthy v then v else JNull)"

definition getRegisteredUIComponent ::
  "PluginRegistry \<Rightarrow> string \<Rightarrow> string option \<Rightarrow> jsval"
where
  "getRegisteredUIComponent this uiNamespacedName uiType =
     (let uiComponent = or_null (dict_get (pluginUIComponents this) uiNamespacedName)
      in case uiType of
           None \<Rightarrow> uiComponent
         | Some t \<Rightarrow>
             if t \<noteq> [] then
               (if truthy uiComponent \<and> uiType_of uiComponent = JStr t
                then uiComponent else JNull)
             else uiComponent)"

section \<open>The view-options menu\<close>

text \<open>
  \<^verbatim>\<open>packages/dataviews/src/view-actions.tsx\<close>. The types \<^verbatim>\<open>View\<close> and
  \<^verbatim>\<open>NormalizedField\<close> come from \<^verbatim>\<open>./types\<close>; the records below hold the
  fields the menus read or write, with \<open>None\<close> for an absent optional field, and the
  record's extension stands for the fields of a view the menus never mention. The layout
  sub-record is a plain object, \<^verbatim>\<open>{}\<close> being the empty one.
\<close>

record SortSpec =
  field :: string
  direction :: string

record View =
  type :: string
  perPage :: int
  page :: int
  sort' :: "SortSpec option"
  hiddenFields :: "string list option"
  layout :: obj

record NormalizedField =
  id' :: string
  header :: string
  enableHiding :: "bool option"
  enableSorting :: "bool option"

text \<open>An entry of \<^verbatim>\<open>VIEW_LAYOUTS\<close> (from \<^verbatim>\<open>./layouts\<close>).\<close>

record ViewLayout =
  layout_type :: string
  layout_label :: string

text \<open>
  What a menu renders, as far as the handlers are concerned: the text beside its trigger
  and its items. An item carries its value, whether it is checked, its label and the
  effect of its change handler, which is the view handed to \<^verbatim>\<open>onChangeView\<close>
  (or the error thrown).
\<close>

record ('v, 'l, 'r) MenuItem =
  item_value :: 'v
  item_checked :: bool
  item_label :: 'l
  onChange :: 'r

record ('s, 'i) Menu =
  suffix :: 's
  items :: "'i list"

subsection \<open>ViewTypeMenu\<close>

text \<open>The change handler of a layout radio item, on \<^verbatim>\<open>e.target.value\<close>.\<close>

definition ViewTypeMenu_onChange ::
  "'a View_scheme \<Rightarrow> string \<Rightarrow> error + 'a View_scheme"
where
  "ViewTypeMenu_onChange view v =
     (if v = ''list'' \<or> v = ''grid'' \<or> v = ''table''
      then Inr (view\<lparr>type := v, layout := []\<rparr>)
      else Inl (Error ''Invalid dataview''))"

definition availableViews :: "ViewLayout list \<Rightarrow> string list option \<Rightarrow> ViewLayout list" where
  "availableViews VIEW_LAYOUTS supportedLayouts =
     (case supportedLayouts of
        None \<Rightarrow> VIEW_LAYOUTS
      | Some sl \<Rightarrow> filter (\<lambda>v. layout_type v \<in> set sl) VIEW_LAYOUTS)"

text \<open>A radio input reports its own value in the change event.\<close>

definition ViewTypeMenu ::
  "ViewLayout list \<Rightarrow> 'a View_scheme \<Rightarrow> string list option \<Rightarrow>
   (string option, (string, string, error + 'a View_scheme) MenuItem) Menu option"
where
  "ViewTypeMenu VIEW_LAYOUTS view supportedLayouts =
     (let avail = availableViews VIEW_LAYOUTS supportedLayouts
      in if length avail = 1 then None
         else
           let activeView = find (\<lambda>v. type view = layout_type v) avail
           in Some \<lparr>suffix = map_option layout_label activeView,
                    items = map (\<lambda>availableView.
                              \<lparr>item_value = layout_type availableView,
                               item_checked = (layout_type availableView = type view),
                               item_label = layout_label availableView,
                               onChange = ViewTypeMenu_onChange view (layout_type availableView)\<rparr>)
                            avail\<rparr>)"

subsection \<open>PageSizeMenu\<close>

definition PAGE_SIZE_VALUES :: "int list" where
  "PAGE_SIZE_VALUES = [10, 20, 50, 100]"

text \<open>The change handler of the radio item of a size.\<close>

definition PageSizeMenu_onChange :: "'a View_scheme \<Rightarrow> int \<Rightarrow> 'a View_scheme" where
  "PageSizeMenu_onChange view sz = view\<lparr>perPage := sz, page := 1\<rparr>"

definition PageSizeMenu ::
  "'a View_scheme \<Rightarrow> (int, (int, int, 'a View_scheme) MenuItem) Menu"
where
  "PageSizeMenu view =
     \<lparr>suffix = perPage view,
      items = map (\<lambda>sz.
                \<lparr>item_value = sz,
                 item_checked = (perPage view = sz),
                 item_label = sz,
                 onChange = PageSizeMenu_onChange view sz\<rparr>)
              PAGE_SIZE_VALUES\<rparr>"

subsection \<open>FieldsVisibilityMenu\<close>

text \<open>\<^verbatim>\<open>view.hiddenFields?.includes( id )\<close>, undefined counting as false.\<close>

definition includes_opt :: "string list option \<Rightarrow> string \<Rightarrow> bool" where
  "includes_opt hs x = (case hs of None \<Rightarrow> False | Some l \<Rightarrow> x \<in> set l)"

text \<open>The change handler of the checkbox item of a field.\<close>

definition FieldsVisibilityMenu_onChange ::
  "'a View_scheme \<Rightarrow> NormalizedField \<Rightarrow> 'a View_scheme"
where
  "FieldsVisibilityMenu_onChange view f =
     view\<lparr>hiddenFields :=
            Some (if includes_opt (hiddenFields view) (id' f)
                  then (case hiddenFields view of
                          None \<Rightarrow> []
                        | Some l \<Rightarrow> filter (\<lambda>i. i \<noteq> id' f) l)
                  else (case hiddenFields view of None \<Rightarrow> [] | Some l \<Rightarrow> l) @ [id' f])\<rparr>"

definition hidableFields :: "'a View_scheme \<Rightarrow> NormalizedField list \<Rightarrow> NormalizedField list" where
  "hidableFields view flds =
     filter (\<lambda>f. enableHiding f \<noteq> Some False
                 \<and> JStr (id' f) \<noteq> member (layout view) ''mediaField'') flds"

definition FieldsVisibilityMenu ::
  "'a View_scheme \<Rightarrow> NormalizedField list \<Rightarrow>
   (unit, (string, string, 'a View_scheme) MenuItem) Menu option"
where
  "FieldsVisibilityMenu view flds =
     (if length (hidableFields view flds) = 0 then None
      else Some \<lparr>suffix = (),
                 items = map (\<lambda>f.
                           \<lparr>item_value = id' f,
                            item_checked = (\<not> includes_opt (hiddenFields view) (id' f)),
                            item_label = header f,
                            onChange = FieldsVisibilityMenu_onChange view f\<rparr>)
                         (hidableFields view flds)\<rparr>)"

subsection \<open>SortMenu\<close>

definition sortableFields :: "NormalizedField list \<Rightarrow> NormalizedField list" where
  "sortableFields flds = filter (\<lambda>f. enableSorting f \<noteq> Some False) flds"

text \<open>The change handler of the radio item of a field and a direction.\<close>

definition SortMenu_onChange ::
  "'a View_scheme \<Rightarrow> NormalizedField \<Rightarrow> string \<Rightarrow> 'a View_scheme"
where
  "SortMenu_onChange view f d = view\<lparr>sort' := Some \<lparr>field = id' f, direction = d\<rparr>\<rparr>"

text \<open>
  \<^verbatim>\<open>SORTING_DIRECTIONS\<close> and \<^verbatim>\<open>sortLabels\<close> come from
  \<^verbatim>\<open>./constants\<close> and are parameters. A sortable field gets a submenu, keyed
  by the field's id, with one radio item for each direction.
\<close>

record 'i SubMenu =
  submenu_key :: string
  submenu_label :: string
  submenu_items :: "'i list"

definition SortMenu ::
  "string list \<Rightarrow> (string \<Rightarrow> string) \<Rightarrow> NormalizedField list \<Rightarrow> 'a View_scheme \<Rightarrow>
   (string option, (string, string, 'a View_scheme) MenuItem SubMenu) Menu option"
where
  "SortMenu SORTING_DIRECTIONS sortLabels flds view =
     (if length (sortableFields flds) = 0 then None
      else
        let currentSortedField =
              find (\<lambda>f. Some (id' f) = map_option field (sort' view)) flds
        in Some \<lparr>suffix = map_option header currentSortedField,
                 items = map (\<lambda>f.
                           let sortedDirection = map_option direction (sort' view)
                           in \<lparr>submenu_key = id' f,
                               submenu_label = header f,
                               submenu_items = map (\<lambda>d.
                                  \<lparr>item_value = id' f @ ''-'' @ d,
                                   item_checked =
                                     (case currentSortedField of
                                        None \<Rightarrow> False
                                      | Some c \<Rightarrow> sortedDirection = Some d \<and> id' f = id' c),
                                   item_label = sortLabels d,
                                   onChange = SortMenu_onChange view f d\<rparr>)
                                 SORTING_DIRECTIONS\<rparr>)
                         (sortableFields flds)\<rparr>)"

section \<open>Notions used in the statements\<close>

text \<open>A sequence of calls of \<^verbatim>\<open>registerUIComponent\<close>, in order.\<close>

definition registerUIComponents ::
  "PluginRegistry \<Rightarrow> (string \<times> string \<times> string) list \<Rightarrow> PluginRegistry"
where
  "registerUIComponents this calls =
     fold (\<lambda>(pluginName, uiNamespacedName, uiType) r.
             registerUIComponent r pluginName uiNamespacedName uiType) calls this"

text \<open>
  The dictionary holds the object \<open>c\<close> for the key \<open>k\<close>: as an own property, or, for
  the key \<^verbatim>\<open>__proto__\<close>, as its prototype.
\<close>

definition holds_component :: "dict \<Rightarrow> string \<Rightarrow> obj \<Rightarrow> bool" where
  "holds_component d k c =
     (if k = ''__proto__'' then proto d = Some c else map_of (own d) k = Some (JObj c))"

text \<open>
  The names a dictionary answers without an own property of that name:
  \<^verbatim>\<open>__proto__\<close>, the functions of \<^verbatim>\<open>Object.prototype\<close>, and the
  own properties of a prototype that replaced it.
\<close>

definition inherited :: "dict \<Rightarrow> string \<Rightarrow> bool" where
  "inherited d k =
     (k = ''__proto__'' \<or> k \<in> set object_prototype_functions
      \<or> (case proto d of None \<Rightarrow> False | Some ps \<Rightarrow> k \<in> fst ` set ps))"

text \<open>The ids a view hides; an absent list hides none.\<close>

definition hidden_ids :: "'a View_scheme \<Rightarrow> string set" where
  "hidden_ids view = (case hiddenFields view of None \<Rightarrow> {} | Some l \<Rightarrow> set l)"

subsection \<open>Concrete inputs\<close>

text \<open>\<^verbatim>\<open>applyFilters\<close> while no filter is attached to the hook: the value passes through.\<close>

definition no_filters :: "obj \<Rightarrow> jsval \<Rightarrow> obj" where
  "no_filters settings name = settings"

text \<open>A filter that gives every plugin another name.\<close>

definition renaming_filter :: "obj \<Rightarrow> jsval \<Rightarrow> obj" where
  "renaming_filter settings name = own_set settings ''name'' (JStr ''renamed'')"

definition example_settings :: obj where
  "example_settings =
     [(''name'', JStr ''my-plugin''), (''render'', JFun ''function render() {}'')]"

definition other_settings :: obj where
  "other_settings =
     [(''name'', JStr ''my-plugin''), (''render'', JFun ''function other() {}''),
      (''sidebar'', JStr ''mine'')]"

definition registered_once :: PluginRegistry where
  "registered_once =
     fst (snd (registerPlugin no_filters new_PluginRegistry (JObj example_settings)))"

text \<open>
  A registry with two components and a third one registered under
  \<^verbatim>\<open>__proto__\<close>, which replaces the prototype of the component dictionary.
\<close>

definition example_components :: PluginRegistry where
  "example_components =
     registerUIComponents
       (registerUIComponent new_PluginRegistry ''my-plugin'' ''my-plugin/sidebar-name'' ''sidebar'')
       [(''my-plugin'', ''my-plugin/menu-item'', ''menu-item''),
        (''other'', ''__proto__'', ''sidebar'')]"

definition example_view :: View where
  "example_view =
     \<lparr>type = ''table'', perPage = 20, page = 3,
      sort' = Some \<lparr>field = ''title'', direction = ''asc''\<rparr>,
      hiddenFields = Some [''author''],
      layout = [(''mediaField'', JStr ''image'')]\<rparr>"

definition example_fields :: "NormalizedField list" where
  "example_fields =
     [\<lparr>id' = ''title'', header = ''Title'', enableHiding = Some False, enableSorting = None\<rparr>,
      \<lparr>id' = ''author'', header = ''Author'', enableHiding = None, enableSorting = Some True\<rparr>,
      \<lparr>id' = ''image'', header = ''Image'', enableHiding = None, enableSorting = Some False\<rparr>]"

definition example_layouts :: "ViewLayout list" where
  "example_layouts =
     [\<lparr>layout_type = ''table'', layout_label = ''Table''\<rparr>,
      \<lparr>layout_type = ''grid'', layout_label = ''Grid''\<rparr>,
      \<lparr>layout_type = ''list'', layout_label = ''List''\<rparr>]"

section \<open>Properties of the plugin registry\<close>

lemma map_of_own_set:
  "map_of (own_set ps k v) k' = (if k' = k then Some v else map_of ps k')"
  by (induction ps) auto

lemma member_own_set:
  "k \<noteq> ''__proto__'' \<Longrightarrow> member (own_set ps k v) k' = (if k' = k then v else member ps k')"
  by (simp add: member_def map_of_own_set)

lemma dict_get_set_same: "dict_get (dict_set d k v) k = JObj v"
  by (simp add: dict_get_def dict_set_def map_of_own_set)

lemma pattern_not_proto: "plugin_name_pattern name \<Longrightarrow> name \<noteq> ''__proto__''"
  by (auto simp: lower_char_def)

text \<open>What the call does once every validation has passed.\<close>

lemma registerPlugin_valid:
  assumes "member ps ''name'' = JStr name" and "plugin_name_pattern name"
    and "isFunction (member ps ''render'')"
  shows "registerPlugin applyFilters this (JObj ps) =
     (let settings1 = own_set ps ''sidebar'' (JObj []);
          settings2 = applyFilters settings1 (JStr name)
      in (Returned (JObj settings2),
          this\<lparr>plugins := dict_set (plugins this)
                              (to_property_key (member settings2 ''name'')) settings2\<rparr>,
          if truthy (dict_get (plugins this) name) then [msg_already_registered name] else []))"
  using assms by (simp add: registerPlugin_def Let_def member_own_set)

text \<open>
  Every argument but \<^verbatim>\<open>null\<close> that fails a validation makes the call return
  \<^verbatim>\<open>null\<close> and leaves the registry as it was.
\<close>

lemma registerPlugin_invalid:
  assumes "settings \<noteq> JNull"
    and "typeof settings \<noteq> ''object''
       \<or> settings = JObjectPrototype
       \<or> (\<exists>ps. settings = JObj ps \<and>
             (typeof (member ps ''name'') \<noteq> ''string''
            \<or> (\<exists>name. member ps ''name'' = JStr name \<and> \<not> plugin_name_pattern name)
            \<or> \<not> isFunction (member ps ''render'')))"
  shows "\<exists>logged. registerPlugin applyFilters this settings = (Returned JNull, this, logged)"
proof (cases settings)
  case (JObj ps)
  with assms show ?thesis
    by (cases "member ps ''name''") (auto simp: registerPlugin_def Let_def)
qed (use assms in \<open>auto simp: registerPlugin_def\<close>)

lemma registered_once_plugins:
  "plugins registered_once =
      \<lparr>own = [(''my-plugin'', JObj [(''name'', JStr ''my-plugin''),
                  (''render'', JFun ''function render() {}''), (''sidebar'', JObj [])])],
       proto = None\<rparr>"
proof -
  have e1: "member example_settings ''name'' = JStr ''my-plugin''"
    by (simp add: example_settings_def member_def)
  have e2: "plugin_name_pattern ''my-plugin''"
    by (simp add: lower_char_def digit_def)
  have e3: "isFunction (member example_settings ''render'')"
    by (simp add: example_settings_def member_def)
  show ?thesis
    unfolding registered_once_def registerPlugin_valid [OF e1 e2 e3]
    by (simp add: Let_def no_filters_def new_PluginRegistry_def empty_dict_def dict_set_def
        example_settings_def member_def)
qed

lemma dict_get_set_other_own:
  assumes "map_of (own d) k = Some v" and "k \<noteq> ''__proto__''" and "k' \<noteq> k"
  shows "dict_get (dict_set d k' c) k = v"
  using assms by (simp add: dict_get_def dict_set_def map_of_own_set)

text \<open>
  C1, as the claim has it, fails when a filter of the hook
  \<^verbatim>\<open>editPost.registerPlugin\<close> renames the plugin: the settings pass every
  validation under the registered name \<^verbatim>\<open>my-plugin\<close> and the duplicate is
  logged, but the returned settings are stored under \<^verbatim>\<open>renamed\<close> and the
  entry under \<^verbatim>\<open>my-plugin\<close> is the previous one still.
\<close>

theorem registerPlugin_renaming_filter_counterexample:
  "member other_settings ''name'' = JStr ''my-plugin''
   \<and> plugin_name_pattern ''my-plugin''
   \<and> isFunction (member other_settings ''render'')
   \<and> dict_get (plugins registered_once) ''my-plugin''
     = JObj [(''name'', JStr ''my-plugin''), (''render'', JFun ''function render() {}''),
             (''sidebar'', JObj [])]
   \<and> registerPlugin renaming_filter registered_once (JObj other_settings)
     = (Returned (JObj [(''name'', JStr ''renamed''), (''render'', JFun ''function other() {}''),
                        (''sidebar'', JObj [])]),
        registered_once
          \<lparr>plugins :=
             \<lparr>own = [(''my-plugin'',
                       JObj [(''name'', JStr ''my-plugin''),
                             (''render'', JFun ''function render() {}''), (''sidebar'', JObj [])]),
                      (''renamed'',
                       JObj [(''name'', JStr ''renamed''),
                             (''render'', JFun ''function other() {}''), (''sidebar'', JObj [])])],
              proto = None\<rparr>\<rparr>,
        [msg_already_registered ''my-plugin''])
   \<and> dict_get (plugins (fst (snd (registerPlugin renaming_filter registered_once
                                     (JObj other_settings))))) ''my-plugin''
     = JObj [(''name'', JStr ''my-plugin''), (''render'', JFun ''function render() {}''),
             (''sidebar'', JObj [])]
   \<and> JObj [(''name'', JStr ''my-plugin''), (''render'', JFun ''function render() {}''),
           (''sidebar'', JObj [])]
     \<noteq> JObj [(''name'', JStr ''renamed''), (''render'', JFun ''function other() {}''),
             (''sidebar'', JObj [])]"
proof -
  have h1: "member other_settings ''name'' = JStr ''my-plugin''"
    by (simp add: other_settings_def member_def)
  have h2: "plugin_name_pattern ''my-plugin''"
    by (simp add: lower_char_def digit_def)
  have h3: "isFunction (member other_settings ''render'')"
    by (simp add: other_settings_def member_def)
  have before: "dict_get (plugins registered_once) ''my-plugin''
     = JObj [(''name'', JStr ''my-plugin''), (''render'', JFun ''function render() {}''),
             (''sidebar'', JObj [])]"
    by (simp add: registered_once_plugins dict_get_def)
  have call: "registerPlugin renaming_filter registered_once (JObj other_settings)
     = (Returned (JObj [(''name'', JStr ''renamed''), (''render'', JFun ''function other() {}''),
                        (''sidebar'', JObj [])]),
        registered_once
          \<lparr>plugins :=
             \<lparr>own = [(''my-plugin'',
                       JObj [(''name'', JStr ''my-plugin''),
                             (''render'', JFun ''function render() {}''), (''sidebar'', JObj [])]),
                      (''renamed'',
                       JObj [(''name'', JStr ''renamed''),
                             (''render'', JFun ''function other() {}''), (''sidebar'', JObj [])])],
              proto = None\<rparr>\<rparr>,
        [msg_already_registered ''my-plugin''])"
    unfolding registerPlugin_valid [OF h1 h2 h3]
    by (simp add: Let_def renaming_filter_def other_settings_def member_def dict_set_def
        dict_get_def registered_once_plugins)
  show ?thesis
    unfolding call using h1 h2 h3 before by (simp add: dict_get_def)
qed

text \<open>
  C1, amended. A name that is already registered does not stop
  \<^verbatim>\<open>registerPlugin\<close>. For settings that pass the other validations, under a
  name the registry already holds an entry for, the call logs the console error for the
  duplicate name and nothing else, returns the final settings (what the filters make of
  the settings with their \<^verbatim>\<open>sidebar\<close> reset) and stores them under the name
  the final settings carry. When the filters leave the name as it is, the previous entry
  under that name is overwritten by the returned settings; when they change it, the
  previous entry stays.
\<close>

theorem registerPlugin_duplicate_name:
  assumes "member ps ''name'' = JStr name" and "plugin_name_pattern name"
    and "isFunction (member ps ''render'')"
    and "map_of (own (plugins this)) name = Some (JObj previous)"
  shows "\<exists>stored this'.
       registerPlugin applyFilters this (JObj ps)
         = (Returned (JObj stored), this', [msg_already_registered name])
     \<and> stored = applyFilters (own_set ps ''sidebar'' (JObj [])) (JStr name)
     \<and> dict_get (plugins this') (to_property_key (member stored ''name'')) = JObj stored
     \<and> (member stored ''name'' = JStr name \<longrightarrow>
           dict_get (plugins this') name = JObj stored)
     \<and> (to_property_key (member stored ''name'') \<noteq> name \<longrightarrow>
           dict_get (plugins this') name = JObj previous)"
proof -
  from assms(2) have np: "name \<noteq> ''__proto__''" by (rule pattern_not_proto)
  with assms(4) have "truthy (dict_get (plugins this) name)"
    by (simp add: dict_get_def)
  with assms(1-3) show ?thesis
    by (auto simp: registerPlugin_valid Let_def dict_get_set_same
        dict_get_set_other_own [OF assms(4) np])
qed

theorem registerPlugin_duplicate_name_witness:
  "dict_get (plugins registered_once) ''my-plugin''
     = JObj [(''name'', JStr ''my-plugin''), (''render'', JFun ''function render() {}''),
             (''sidebar'', JObj [])]
   \<and> fst (registerPlugin no_filters registered_once (JObj other_settings))
     = Returned (JObj [(''name'', JStr ''my-plugin''), (''render'', JFun ''function other() {}''),
                       (''sidebar'', JObj [])])
   \<and> dict_get (plugins (fst (snd (registerPlugin no_filters registered_once (JObj other_settings)))))
        ''my-plugin''
     = JObj [(''name'', JStr ''my-plugin''), (''render'', JFun ''function other() {}''),
             (''sidebar'', JObj [])]
   \<and> snd (snd (registerPlugin no_filters registered_once (JObj other_settings)))
     = [msg_already_registered ''my-plugin'']
   \<and> dict_get (plugins (fst (snd (registerPlugin renaming_filter registered_once
                                     (JObj other_settings))))) ''my-plugin''
     = JObj [(''name'', JStr ''my-plugin''), (''render'', JFun ''function render() {}''),
             (''sidebar'', JObj [])]"
proof -
  have h1: "member other_settings ''name'' = JStr ''my-plugin''"
    by (simp add: other_settings_def member_def)
  have h2: "plugin_name_pattern ''my-plugin''"
    by (simp add: lower_char_def digit_def)
  have h3: "isFunction (member other_settings ''render'')"
    by (simp add: other_settings_def member_def)
  have h4: "map_of (own (plugins registered_once)) ''my-plugin''
      = Some (JObj [(''name'', JStr ''my-plugin''),
                  (''render'', JFun ''function render() {}''), (''sidebar'', JObj [])])"
    by (simp add: registered_once_plugins)
  have s: "own_set other_settings ''sidebar'' (JObj [])
      = [(''name'', JStr ''my-plugin''), (''render'', JFun ''function other() {}''),
         (''sidebar'', JObj [])]"
    by (simp add: other_settings_def)
  have kept: "member (no_filters (own_set other_settings ''sidebar'' (JObj [])) (JStr ''my-plugin''))
        ''name'' = JStr ''my-plugin''"
    by (simp add: no_filters_def s member_def)
  have changed: "to_property_key
        (member (renaming_filter (own_set other_settings ''sidebar'' (JObj [])) (JStr ''my-plugin''))
           ''name'') \<noteq> ''my-plugin''"
    by (simp add: renaming_filter_def s member_def)
  have before: "dict_get (plugins registered_once) ''my-plugin''
     = JObj [(''name'', JStr ''my-plugin''), (''render'', JFun ''function render() {}''),
             (''sidebar'', JObj [])]"
    by (simp add: registered_once_plugins dict_get_def)
  from registerPlugin_duplicate_name [OF h1 h2 h3 h4, of no_filters] kept
  have a: "fst (registerPlugin no_filters registered_once (JObj other_settings))
     = Returned (JObj [(''name'', JStr ''my-plugin''), (''render'', JFun ''function other() {}''),
                       (''sidebar'', JObj [])])
   \<and> dict_get (plugins (fst (snd (registerPlugin no_filters registered_once (JObj other_settings)))))
        ''my-plugin''
     = JObj [(''name'', JStr ''my-plugin''), (''render'', JFun ''function other() {}''),
             (''sidebar'', JObj [])]
   \<and> snd (snd (registerPlugin no_filters registered_once (JObj other_settings)))
     = [msg_already_registered ''my-plugin'']"
    by (auto simp: no_filters_def s)
  from registerPlugin_duplicate_name [OF h1 h2 h3 h4, of renaming_filter] changed
  have b: "dict_get (plugins (fst (snd (registerPlugin renaming_filter registered_once
                                     (JObj other_settings))))) ''my-plugin''
     = JObj [(''name'', JStr ''my-plugin''), (''render'', JFun ''function render() {}''),
             (''sidebar'', JObj [])]"
    by auto
  from a b before show ?thesis by simp
qed

text \<open>
  C2, at the argument \<^verbatim>\<open>null\<close>: \<^verbatim>\<open>typeof null\<close> is
  \<^verbatim>\<open>'object'\<close>, so the first validation lets it through and reading
  \<^verbatim>\<open>settings.name\<close> throws a \<^verbatim>\<open>TypeError\<close>. The call returns
  nothing and logs nothing; the registry keeps its state.
\<close>

theorem registerPlugin_null_throws:
  "registerPlugin applyFilters this JNull = (Threw TypeError, this, [])"
  by (simp add: registerPlugin_def)

text \<open>
  C3. For every valid settings object (a plain object whose \<^verbatim>\<open>name\<close> is a string
  of the allowed pattern and whose \<^verbatim>\<open>render\<close> is a function),
  \<^verbatim>\<open>registerPlugin\<close> returns the final settings object and stores that same
  object in \<^verbatim>\<open>plugins\<close> under its name, leaving the UI components alone. The
  final settings are what the filters make of the settings with their
  \<^verbatim>\<open>sidebar\<close> reset to \<^verbatim>\<open>{}\<close>; when the filters pass them through,
  name and render function are the given ones and the entry is under the given name.
\<close>

theorem registerPlugin_stores_and_returns:
  assumes "member ps ''name'' = JStr name" and "plugin_name_pattern name"
    and "isFunction (member ps ''render'')"
  shows "\<exists>stored this' logged.
       registerPlugin applyFilters this (JObj ps) = (Returned (JObj stored), this', logged)
     \<and> stored = applyFilters (own_set ps ''sidebar'' (JObj [])) (JStr name)
     \<and> dict_get (plugins this') (to_property_key (member stored ''name'')) = JObj stored
     \<and> pluginUIComponents this' = pluginUIComponents this
     \<and> (stored = own_set ps ''sidebar'' (JObj []) \<longrightarrow>
           member stored ''name'' = JStr name \<and> member stored ''render'' = member ps ''render''
           \<and> dict_get (plugins this') name = JObj stored)"
  using assms by (simp add: registerPlugin_valid Let_def dict_get_set_same member_own_set)

theorem registerPlugin_stores_and_returns_witness:
  "fst (registerPlugin no_filters new_PluginRegistry (JObj example_settings))
     = Returned (JObj [(''name'', JStr ''my-plugin''), (''render'', JFun ''function render() {}''),
                       (''sidebar'', JObj [])])
   \<and> dict_get (plugins (fst (snd (registerPlugin no_filters new_PluginRegistry
                                     (JObj example_settings))))) ''my-plugin''
     = JObj [(''name'', JStr ''my-plugin''), (''render'', JFun ''function render() {}''),
             (''sidebar'', JObj [])]"
proof -
  have h1: "member example_settings ''name'' = JStr ''my-plugin''"
    by (simp add: example_settings_def member_def)
  have h2: "plugin_name_pattern ''my-plugin''"
    by (simp add: lower_char_def digit_def)
  have h3: "isFunction (member example_settings ''render'')"
    by (simp add: example_settings_def member_def)
  have s: "own_set example_settings ''sidebar'' (JObj [])
      = [(''name'', JStr ''my-plugin''), (''render'', JFun ''function render() {}''),
         (''sidebar'', JObj [])]"
    by (simp add: example_settings_def)
  from registerPlugin_stores_and_returns [OF h1 h2 h3, of no_filters new_PluginRegistry]
  show ?thesis
    by (auto simp: no_filters_def s)
qed

subsection \<open>UI components\<close>

lemma holds_component_get: "holds_component d k c \<Longrightarrow> dict_get d k = JObj c"
  by (simp add: holds_component_def dict_get_def split: if_splits)

lemma holds_component_set_same: "holds_component (dict_set d k c) k c"
  by (simp add: holds_component_def dict_set_def map_of_own_set)

lemma holds_component_set_other:
  "holds_component d k c \<Longrightarrow> k' \<noteq> k \<Longrightarrow> holds_component (dict_set d k' c') k c"
  by (auto simp: holds_component_def dict_set_def map_of_own_set split: if_splits)

lemma holds_component_later:
  "holds_component (pluginUIComponents this) k c \<Longrightarrow> \<forall>r \<in> set calls. fst (snd r) \<noteq> k \<Longrightarrow>
   holds_component (pluginUIComponents (registerUIComponents this calls)) k c"
proof (induction calls arbitrary: this)
  case Nil
  then show ?case by (simp add: registerUIComponents_def)
next
  case (Cons a calls)
  obtain p n t where a: "a = (p, n, t)" by (cases a)
  with Cons.prems have "n \<noteq> k" by simp
  with Cons.prems(1)
  have "holds_component (pluginUIComponents (registerUIComponent this p n t)) k c"
    by (simp add: registerUIComponent_def holds_component_set_other)
  moreover from Cons.prems have "\<forall>r \<in> set calls. fst (snd r) \<noteq> k" by simp
  ultimately have "holds_component
      (pluginUIComponents (registerUIComponents (registerUIComponent this p n t) calls)) k c"
    by (rule Cons.IH)
  then show ?case by (simp add: registerUIComponents_def a)
qed

text \<open>
  C4. Round trip of a UI-component registration: after
  \<^verbatim>\<open>registerUIComponent( pluginName, uiNamespacedName, uiType )\<close>, and after any
  later registrations under other identifiers,
  \<^verbatim>\<open>getRegisteredUIComponent( uiNamespacedName )\<close> without a type returns the
  record \<^verbatim>\<open>{ pluginName, uiType }\<close> that was registered. This holds for every
  registry and for all three strings.
\<close>

theorem registerUIComponent_round_trip:
  "(\<forall>r \<in> set later. fst (snd r) \<noteq> uiNamespacedName) \<longrightarrow>
   getRegisteredUIComponent
      (registerUIComponents (registerUIComponent this pluginName uiNamespacedName uiType) later)
      uiNamespacedName None
     = JObj [(''pluginName'', JStr pluginName), (''uiType'', JStr uiType)]"
proof
  assume later: "\<forall>r \<in> set later. fst (snd r) \<noteq> uiNamespacedName"
  have "holds_component
          (pluginUIComponents (registerUIComponent this pluginName uiNamespacedName uiType))
          uiNamespacedName (ui_component pluginName uiType)"
    by (simp add: registerUIComponent_def holds_component_set_same)
  from holds_component_get [OF holds_component_later [OF this later]] show
    "getRegisteredUIComponent
      (registerUIComponents (registerUIComponent this pluginName uiNamespacedName uiType) later)
      uiNamespacedName None
     = JObj [(''pluginName'', JStr pluginName), (''uiType'', JStr uiType)]"
    by (simp add: getRegisteredUIComponent_def or_null_def ui_component_def)
qed

theorem registerUIComponent_round_trip_witness:
  "getRegisteredUIComponent
      (registerUIComponents
         (registerUIComponent new_PluginRegistry ''my-plugin'' ''my-plugin/sidebar-name'' ''sidebar'')
         [(''my-plugin'', ''my-plugin/menu-item'', ''menu-item''),
          (''other'', ''__proto__'', ''sidebar'')])
      ''my-plugin/sidebar-name'' None
     = JObj [(''pluginName'', JStr ''my-plugin''), (''uiType'', JStr ''sidebar'')]"
  using registerUIComponent_round_trip
    [of "[(''my-plugin'', ''my-plugin/menu-item'', ''menu-item''),
          (''other'', ''__proto__'', ''sidebar'')]"
        "''my-plugin/sidebar-name''" new_PluginRegistry "''my-plugin''" "''sidebar''"]
  by simp

text \<open>
  C5, as the claim has it, fails at the empty string: it is a type argument that is not
  \<^verbatim>\<open>null\<close> and differs from the stored type \<^verbatim>\<open>'sidebar'\<close>, yet the
  component comes back, because \<^verbatim>\<open>if ( uiType )\<close> tests truthiness.
\<close>

theorem getRegisteredUIComponent_empty_type_counterexample:
  "Some [] \<noteq> (None :: string option)
   \<and> uiType_of (getRegisteredUIComponent
        (registerUIComponent new_PluginRegistry ''my-plugin'' ''my-plugin/sidebar-name'' ''sidebar'')
        ''my-plugin/sidebar-name'' None) = JStr ''sidebar''
   \<and> JStr ''sidebar'' \<noteq> JStr []
   \<and> getRegisteredUIComponent
        (registerUIComponent new_PluginRegistry ''my-plugin'' ''my-plugin/sidebar-name'' ''sidebar'')
        ''my-plugin/sidebar-name'' (Some [])
      = JObj [(''pluginName'', JStr ''my-plugin''), (''uiType'', JStr ''sidebar'')]
   \<and> JObj [(''pluginName'', JStr ''my-plugin''), (''uiType'', JStr ''sidebar'')] \<noteq> JNull"
  by (simp add: getRegisteredUIComponent_def registerUIComponent_def dict_get_set_same
      or_null_def ui_component_def member_def)

lemma example_components_dict:
  "pluginUIComponents example_components =
     \<lparr>own = [(''my-plugin/sidebar-name'', JObj (ui_component ''my-plugin'' ''sidebar'')),
             (''my-plugin/menu-item'', JObj (ui_component ''my-plugin'' ''menu-item''))],
      proto = Some (ui_component ''other'' ''sidebar'')\<rparr>"
  by (simp add: example_components_def registerUIComponents_def registerUIComponent_def
      dict_set_def new_PluginRegistry_def empty_dict_def)

text \<open>
  C5, amended. \<^verbatim>\<open>getRegisteredUIComponent( uiNamespacedName, uiType )\<close> returns
  \<^verbatim>\<open>null\<close> whenever no component is registered under
  \<^verbatim>\<open>uiNamespacedName\<close> and the identifier is not a name the component dictionary
  inherits. For a registered component, under any identifier and any prototype, it returns
  \<^verbatim>\<open>null\<close> when a non-empty type is supplied that differs from the stored one,
  and the stored record in all other cases, an empty type counting as none.
\<close>

theorem getRegisteredUIComponent_cases:
  "(map_of (own (pluginUIComponents this)) uiNamespacedName = None
      \<and> \<not> inherited (pluginUIComponents this) uiNamespacedName \<longrightarrow>
        getRegisteredUIComponent this uiNamespacedName uiType = JNull)
   \<and> (\<forall>p t. holds_component (pluginUIComponents this) uiNamespacedName (ui_component p t) \<longrightarrow>
        getRegisteredUIComponent this uiNamespacedName uiType =
          (if uiType = None \<or> uiType = Some [] \<or> uiType = Some t
           then JObj (ui_component p t) else JNull))"
proof (intro conjI allI impI)
  assume "map_of (own (pluginUIComponents this)) uiNamespacedName = None
      \<and> \<not> inherited (pluginUIComponents this) uiNamespacedName"
  then have own: "map_of (own (pluginUIComponents this)) uiNamespacedName = None"
    and ni: "\<not> inherited (pluginUIComponents this) uiNamespacedName"
    by simp_all
  from ni have np: "uiNamespacedName \<noteq> ''__proto__''"
    and nf: "object_prototype_member uiNamespacedName = JUndefined"
    by (simp_all add: inherited_def object_prototype_member_def)
  have "dict_get (pluginUIComponents this) uiNamespacedName = JUndefined"
  proof (cases "proto (pluginUIComponents this)")
    case None
    with own np nf show ?thesis by (simp add: dict_get_def)
  next
    case (Some ps)
    with ni have "uiNamespacedName \<notin> fst ` set ps" by (simp add: inherited_def)
    then have "map_of ps uiNamespacedName = None" by (simp add: map_of_eq_None_iff)
    with own np nf Some show ?thesis by (simp add: dict_get_def member_def)
  qed
  then show "getRegisteredUIComponent this uiNamespacedName uiType = JNull"
    by (simp add: getRegisteredUIComponent_def or_null_def split: option.splits)
next
  fix p t
  assume "holds_component (pluginUIComponents this) uiNamespacedName (ui_component p t)"
  then have "dict_get (pluginUIComponents this) uiNamespacedName = JObj (ui_component p t)"
    by (rule holds_component_get)
  then show "getRegisteredUIComponent this uiNamespacedName uiType =
          (if uiType = None \<or> uiType = Some [] \<or> uiType = Some t
           then JObj (ui_component p t) else JNull)"
    by (auto simp: getRegisteredUIComponent_def or_null_def ui_component_def member_def Let_def
        split: option.splits)
qed

theorem getRegisteredUIComponent_cases_witness:
  "getRegisteredUIComponent example_components ''my-plugin/sidebar-name'' (Some ''menu-item'')
     = JNull
   \<and> getRegisteredUIComponent example_components ''my-plugin/sidebar-name'' (Some ''sidebar'')
     = JObj [(''pluginName'', JStr ''my-plugin''), (''uiType'', JStr ''sidebar'')]
   \<and> getRegisteredUIComponent example_components ''my-plugin/sidebar-name'' (Some [])
     = JObj [(''pluginName'', JStr ''my-plugin''), (''uiType'', JStr ''sidebar'')]
   \<and> getRegisteredUIComponent example_components ''__proto__'' (Some ''sidebar'')
     = JObj [(''pluginName'', JStr ''other''), (''uiType'', JStr ''sidebar'')]
   \<and> getRegisteredUIComponent example_components ''my-plugin/unknown'' None = JNull
   \<and> getRegisteredUIComponent new_PluginRegistry ''my-plugin/sidebar-name'' (Some ''sidebar'')
     = JNull"
proof -
  let ?n = "''my-plugin/sidebar-name''"
  have r1: "holds_component (pluginUIComponents example_components) ?n
              (ui_component ''my-plugin'' ''sidebar'')"
    by (simp add: example_components_dict holds_component_def)
  have r2: "holds_component (pluginUIComponents example_components) ''__proto__''
              (ui_component ''other'' ''sidebar'')"
    by (simp add: example_components_dict holds_component_def)
  have u1: "map_of (own (pluginUIComponents example_components)) ''my-plugin/unknown'' = None
      \<and> \<not> inherited (pluginUIComponents example_components) ''my-plugin/unknown''"
    by (simp add: example_components_dict inherited_def object_prototype_functions_def
        ui_component_def)
  have u2: "map_of (own (pluginUIComponents new_PluginRegistry)) ?n = None
      \<and> \<not> inherited (pluginUIComponents new_PluginRegistry) ?n"
    by (simp add: new_PluginRegistry_def empty_dict_def inherited_def
        object_prototype_functions_def)
  from getRegisteredUIComponent_cases [of example_components ?n] r1
  have a: "getRegisteredUIComponent example_components ?n uiType =
      (if uiType = None \<or> uiType = Some [] \<or> uiType = Some ''sidebar''
       then JObj (ui_component ''my-plugin'' ''sidebar'') else JNull)" for uiType
    by blast
  from getRegisteredUIComponent_cases [of example_components "''__proto__''"] r2
  have b: "getRegisteredUIComponent example_components ''__proto__'' uiType =
      (if uiType = None \<or> uiType = Some [] \<or> uiType = Some ''sidebar''
       then JObj (ui_component ''other'' ''sidebar'') else JNull)" for uiType
    by blast
  from getRegisteredUIComponent_cases [of example_components "''my-plugin/unknown''" None] u1
  have c: "getRegisteredUIComponent example_components ''my-plugin/unknown'' None = JNull"
    by blast
  from getRegisteredUIComponent_cases [of new_PluginRegistry ?n "Some ''sidebar''"] u2
  have d: "getRegisteredUIComponent new_PluginRegistry ?n (Some ''sidebar'') = JNull"
    by blast
  show ?thesis
    by (simp add: a b c d ui_component_def)
qed

text \<open>
  An identifier that names a property of \<^verbatim>\<open>Object.prototype\<close> finds the
  inherited value, although nothing was registered.
\<close>

lemma getRegisteredUIComponent_inherited:
  "getRegisteredUIComponent new_PluginRegistry ''constructor'' None
     = JFun ''function Object() { [native code] }''"
  by (simp add: getRegisteredUIComponent_def new_PluginRegistry_def empty_dict_def dict_get_def
      object_prototype_member_def object_prototype_functions_def native_function_def or_null_def)

section \<open>Properties of the view-options menu\<close>

text \<open>
  C9. The page-size menu offers the sizes 10, 20, 50 and 100, and choosing one hands
  \<^verbatim>\<open>onChangeView\<close> the current view with \<^verbatim>\<open>perPage\<close> set to that size
  and \<^verbatim>\<open>page\<close> set to 1, whatever the current view and page are.
\<close>

theorem PageSizeMenu_resets_page:
  "map item_value (items (PageSizeMenu view)) = [10, 20, 50, 100]
   \<and> (\<forall>it \<in> set (items (PageSizeMenu view)).
        item_value it \<in> {10, 20, 50, 100}
        \<and> perPage (onChange it) = item_value it \<and> page (onChange it) = 1
        \<and> onChange it = view\<lparr>perPage := item_value it, page := 1\<rparr>)"
  by (auto simp: PageSizeMenu_def PAGE_SIZE_VALUES_def PageSizeMenu_onChange_def)

theorem PageSizeMenu_resets_page_witness:
  "page example_view = 3
   \<and> items (PageSizeMenu example_view) ! 2 \<in> set (items (PageSizeMenu example_view))
   \<and> item_value (items (PageSizeMenu example_view) ! 2) = 50
   \<and> onChange (items (PageSizeMenu example_view) ! 2)
      = \<lparr>type = ''table'', perPage = 50, page = 1,
         sort' = Some \<lparr>field = ''title'', direction = ''asc''\<rparr>,
         hiddenFields = Some [''author''],
         layout = [(''mediaField'', JStr ''image'')]\<rparr>"
proof -
  have h: "items (PageSizeMenu example_view) ! 2 \<in> set (items (PageSizeMenu example_view))"
    by (simp add: PageSizeMenu_def PAGE_SIZE_VALUES_def)
  have v: "item_value (items (PageSizeMenu example_view) ! 2) = 50"
    by (simp add: PageSizeMenu_def PAGE_SIZE_VALUES_def)
  from PageSizeMenu_resets_page [of example_view] h
  have "onChange (items (PageSizeMenu example_view) ! 2)
      = example_view\<lparr>perPage := item_value (items (PageSizeMenu example_view) ! 2), page := 1\<rparr>"
    by blast
  with h v show ?thesis
    by (simp add: example_view_def)
qed

lemma ViewTypeMenu_items:
  "ViewTypeMenu VIEW_LAYOUTS view supportedLayouts = Some m \<Longrightarrow>
     items m = map (\<lambda>a. \<lparr>item_value = layout_type a, item_checked = (layout_type a = type view),
                          item_label = layout_label a,
                          onChange = ViewTypeMenu_onChange view (layout_type a)\<rparr>)
                 (availableViews VIEW_LAYOUTS supportedLayouts)"
  by (auto simp: ViewTypeMenu_def Let_def split: if_splits)

lemma ViewTypeMenu_item:
  assumes "ViewTypeMenu VIEW_LAYOUTS view supportedLayouts = Some m" and "it \<in> set (items m)"
  shows "item_value it \<in> layout_type ` set (availableViews VIEW_LAYOUTS supportedLayouts)"
    and "onChange it = ViewTypeMenu_onChange view (item_value it)"
  using assms by (auto simp: ViewTypeMenu_items)

lemma FieldsVisibilityMenu_example:
  "FieldsVisibilityMenu example_view example_fields =
     Some \<lparr>suffix = (),
           items = [\<lparr>item_value = ''author'', item_checked = False, item_label = ''Author'',
                     onChange = example_view\<lparr>hiddenFields := Some []\<rparr>\<rparr>]\<rparr>"
  by (simp add: FieldsVisibilityMenu_def FieldsVisibilityMenu_onChange_def hidableFields_def
      includes_opt_def example_fields_def example_view_def member_def)

lemma SortMenu_example:
  "SortMenu [''asc'', ''desc''] (\<lambda>d. d) example_fields example_view =
     Some \<lparr>suffix = Some ''Title'',
           items =
             [\<lparr>submenu_key = ''title'', submenu_label = ''Title'',
               submenu_items =
                 [\<lparr>item_value = ''title-asc'', item_checked = True, item_label = ''asc'',
                   onChange = example_view\<lparr>sort' := Some \<lparr>field = ''title'', direction = ''asc''\<rparr>\<rparr>\<rparr>,
                  \<lparr>item_value = ''title-desc'', item_checked = False, item_label = ''desc'',
                   onChange = example_view\<lparr>sort' := Some \<lparr>field = ''title'', direction = ''desc''\<rparr>\<rparr>\<rparr>]\<rparr>,
              \<lparr>submenu_key = ''author'', submenu_label = ''Author'',
               submenu_items =
                 [\<lparr>item_value = ''author-asc'', item_checked = False, item_label = ''asc'',
                   onChange = example_view\<lparr>sort' := Some \<lparr>field = ''author'', direction = ''asc''\<rparr>\<rparr>\<rparr>,
                  \<lparr>item_value = ''author-desc'', item_checked = False, item_label = ''desc'',
                   onChange = example_view\<lparr>sort' := Some \<lparr>field = ''author'', direction = ''desc''\<rparr>\<rparr>\<rparr>]\<rparr>]\<rparr>"
  by (simp add: SortMenu_def SortMenu_onChange_def sortableFields_def Let_def
      example_fields_def example_view_def)

lemma ViewTypeMenu_example:
  "ViewTypeMenu example_layouts example_view None =
     Some \<lparr>suffix = Some ''Table'',
           items =
             [\<lparr>item_value = ''table'', item_checked = True, item_label = ''Table'',
               onChange = Inr (example_view\<lparr>type := ''table'', layout := []\<rparr>)\<rparr>,
              \<lparr>item_value = ''grid'', item_checked = False, item_label = ''Grid'',
               onChange = Inr (example_view\<lparr>type := ''grid'', layout := []\<rparr>)\<rparr>,
              \<lparr>item_value = ''list'', item_checked = False, item_label = ''List'',
               onChange = Inr (example_view\<lparr>type := ''list'', layout := []\<rparr>)\<rparr>]\<rparr>"
  by (simp add: ViewTypeMenu_def ViewTypeMenu_onChange_def availableViews_def Let_def
      example_layouts_def example_view_def)

text \<open>
  C6. Every item of the view-options menu hands \<^verbatim>\<open>onChangeView\<close> a whole view
  record that is the previous view with only the fields of that interaction replaced: a
  sort option replaces \<^verbatim>\<open>sort\<close> only, a field's checkbox replaces
  \<^verbatim>\<open>hiddenFields\<close> only, a page size replaces \<^verbatim>\<open>perPage\<close> and
  \<^verbatim>\<open>page\<close> only, a layout replaces \<^verbatim>\<open>type\<close> and
  \<^verbatim>\<open>layout\<close> only. All other fields, also those the menu never mentions,
  are carried over.
\<close>

theorem onChangeView_replaces_only_relevant_fields:
  "(\<forall>m sub it. SortMenu SORTING_DIRECTIONS sortLabels flds view = Some m \<longrightarrow>
        sub \<in> set (items m) \<longrightarrow> it \<in> set (submenu_items sub) \<longrightarrow>
        onChange it = view\<lparr>sort' := sort' (onChange it)\<rparr>)
   \<and> (\<forall>m it. FieldsVisibilityMenu view flds = Some m \<longrightarrow> it \<in> set (items m) \<longrightarrow>
        onChange it = view\<lparr>hiddenFields := hiddenFields (onChange it)\<rparr>)
   \<and> (\<forall>it \<in> set (items (PageSizeMenu view)).
        onChange it = view\<lparr>perPage := perPage (onChange it), page := page (onChange it)\<rparr>)
   \<and> (\<forall>m it v. ViewTypeMenu VIEW_LAYOUTS view supportedLayouts = Some m \<longrightarrow>
        it \<in> set (items m) \<longrightarrow> onChange it = Inr v \<longrightarrow>
        v = view\<lparr>type := type v, layout := layout v\<rparr>)"
  by (auto simp: SortMenu_def SortMenu_onChange_def FieldsVisibilityMenu_def
      FieldsVisibilityMenu_onChange_def PageSizeMenu_def PageSizeMenu_onChange_def
      ViewTypeMenu_def ViewTypeMenu_onChange_def Let_def split: if_splits)

theorem onChangeView_replaces_only_relevant_fields_witness:
  "onChange (submenu_items (items (the (SortMenu [''asc'', ''desc''] (\<lambda>d. d)
                                          example_fields example_view)) ! 1) ! 1)
     = \<lparr>type = ''table'', perPage = 20, page = 3,
        sort' = Some \<lparr>field = ''author'', direction = ''desc''\<rparr>,
        hiddenFields = Some [''author''], layout = [(''mediaField'', JStr ''image'')]\<rparr>
   \<and> onChange (items (the (FieldsVisibilityMenu example_view example_fields)) ! 0)
     = \<lparr>type = ''table'', perPage = 20, page = 3,
        sort' = Some \<lparr>field = ''title'', direction = ''asc''\<rparr>,
        hiddenFields = Some [], layout = [(''mediaField'', JStr ''image'')]\<rparr>
   \<and> onChange (items (PageSizeMenu example_view) ! 3)
     = \<lparr>type = ''table'', perPage = 100, page = 1,
        sort' = Some \<lparr>field = ''title'', direction = ''asc''\<rparr>,
        hiddenFields = Some [''author''], layout = [(''mediaField'', JStr ''image'')]\<rparr>
   \<and> onChange (items (the (ViewTypeMenu example_layouts example_view None)) ! 1)
     = Inr \<lparr>type = ''grid'', perPage = 20, page = 3,
            sort' = Some \<lparr>field = ''title'', direction = ''asc''\<rparr>,
            hiddenFields = Some [''author''], layout = []\<rparr>"
proof -
  let ?sm = "the (SortMenu [''asc'', ''desc''] (\<lambda>d. d) example_fields example_view)"
  let ?fm = "the (FieldsVisibilityMenu example_view example_fields)"
  let ?vm = "the (ViewTypeMenu example_layouts example_view None)"
  note frame = onChangeView_replaces_only_relevant_fields
    [of "[''asc'', ''desc'']" "\<lambda>d. d" example_fields example_view example_layouts None]
  have s1: "SortMenu [''asc'', ''desc''] (\<lambda>d. d) example_fields example_view = Some ?sm"
    by (simp add: SortMenu_example)
  have s2: "items ?sm ! 1 \<in> set (items ?sm)"
    by (simp add: SortMenu_example)
  have s3: "submenu_items (items ?sm ! 1) ! 1 \<in> set (submenu_items (items ?sm ! 1))"
    by (simp add: SortMenu_example)
  from frame s1 s2 s3
  have "onChange (submenu_items (items ?sm ! 1) ! 1)
      = example_view\<lparr>sort' := sort' (onChange (submenu_items (items ?sm ! 1) ! 1))\<rparr>"
    by blast
  then have a: "onChange (submenu_items (items ?sm ! 1) ! 1)
      = example_view\<lparr>sort' := Some \<lparr>field = ''author'', direction = ''desc''\<rparr>\<rparr>"
    by (simp add: SortMenu_example)
  have f1: "FieldsVisibilityMenu example_view example_fields = Some ?fm"
    by (simp add: FieldsVisibilityMenu_example)
  have f2: "items ?fm ! 0 \<in> set (items ?fm)"
    by (simp add: FieldsVisibilityMenu_example)
  from frame f1 f2
  have "onChange (items ?fm ! 0)
      = example_view\<lparr>hiddenFields := hiddenFields (onChange (items ?fm ! 0))\<rparr>"
    by blast
  then have b: "onChange (items ?fm ! 0) = example_view\<lparr>hiddenFields := Some []\<rparr>"
    by (simp add: FieldsVisibilityMenu_example)
  have p1: "items (PageSizeMenu example_view) ! 3 \<in> set (items (PageSizeMenu example_view))"
    by (simp add: PageSizeMenu_def PAGE_SIZE_VALUES_def)
  from frame p1
  have "onChange (items (PageSizeMenu example_view) ! 3)
      = example_view\<lparr>perPage := perPage (onChange (items (PageSizeMenu example_view) ! 3)),
                      page := page (onChange (items (PageSizeMenu example_view) ! 3))\<rparr>"
    by blast
  then have c: "onChange (items (PageSizeMenu example_view) ! 3)
      = example_view\<lparr>perPage := 100, page := 1\<rparr>"
    by (simp add: PageSizeMenu_def PAGE_SIZE_VALUES_def PageSizeMenu_onChange_def)
  have v1: "ViewTypeMenu example_layouts example_view None = Some ?vm"
    by (simp add: ViewTypeMenu_example)
  have v2: "items ?vm ! 1 \<in> set (items ?vm)"
    by (simp add: ViewTypeMenu_example)
  have v3: "onChange (items ?vm ! 1) = Inr (example_view\<lparr>type := ''grid'', layout := []\<rparr>)"
    by (simp add: ViewTypeMenu_example)
  from frame v1 v2 v3
  have "example_view\<lparr>type := ''grid'', layout := []\<rparr>
      = example_view\<lparr>type := type (example_view\<lparr>type := ''grid'', layout := []\<rparr>),
                      layout := layout (example_view\<lparr>type := ''grid'', layout := []\<rparr>)\<rparr>"
    by blast
  with v3 have d: "onChange (items ?vm ! 1) = Inr (example_view\<lparr>type := ''grid'', layout := []\<rparr>)"
    by simp
  show ?thesis
    unfolding a b c d by (simp add: example_view_def)
qed

text \<open>
  C7. The change handler of a layout item: for the values \<^verbatim>\<open>'list'\<close>,
  \<^verbatim>\<open>'grid'\<close> and \<^verbatim>\<open>'table'\<close> it calls \<^verbatim>\<open>onChangeView\<close> with
  the previous view whose \<^verbatim>\<open>type\<close> is the value and whose \<^verbatim>\<open>layout\<close>
  is reset to \<^verbatim>\<open>{}\<close>; for any other value it throws the error
  \<^verbatim>\<open>Invalid dataview\<close>. Every item reports the type of an available layout, so
  when each available layout has one of the three types no item can throw.
\<close>

theorem ViewTypeMenu_switches_layout:
  "(if v \<in> {''list'', ''grid'', ''table''}
    then ViewTypeMenu_onChange view v = Inr (view\<lparr>type := v, layout := []\<rparr>)
    else ViewTypeMenu_onChange view v = Inl (Error ''Invalid dataview''))
   \<and> (\<forall>m it. ViewTypeMenu VIEW_LAYOUTS view supportedLayouts = Some m \<longrightarrow>
         it \<in> set (items m) \<longrightarrow>
         item_value it \<in> layout_type ` set (availableViews VIEW_LAYOUTS supportedLayouts)
         \<and> onChange it = ViewTypeMenu_onChange view (item_value it))
   \<and> ((\<forall>l \<in> set (availableViews VIEW_LAYOUTS supportedLayouts).
          layout_type l \<in> {''list'', ''grid'', ''table''}) \<longrightarrow>
        (\<forall>m it. ViewTypeMenu VIEW_LAYOUTS view supportedLayouts = Some m \<longrightarrow>
            it \<in> set (items m) \<longrightarrow>
            onChange it = Inr (view\<lparr>type := item_value it, layout := []\<rparr>)))"
proof (intro conjI allI impI)
  show "if v \<in> {''list'', ''grid'', ''table''}
    then ViewTypeMenu_onChange view v = Inr (view\<lparr>type := v, layout := []\<rparr>)
    else ViewTypeMenu_onChange view v = Inl (Error ''Invalid dataview'')"
    by (simp add: ViewTypeMenu_onChange_def)
next
  fix m it
  assume "ViewTypeMenu VIEW_LAYOUTS view supportedLayouts = Some m" "it \<in> set (items m)"
  then show "item_value it \<in> layout_type ` set (availableViews VIEW_LAYOUTS supportedLayouts)"
    and "onChange it = ViewTypeMenu_onChange view (item_value it)"
    by (rule ViewTypeMenu_item)+
next
  fix m it
  assume all: "\<forall>l \<in> set (availableViews VIEW_LAYOUTS supportedLayouts).
                 layout_type l \<in> {''list'', ''grid'', ''table''}"
    and m: "ViewTypeMenu VIEW_LAYOUTS view supportedLayouts = Some m"
    and it: "it \<in> set (items m)"
  from ViewTypeMenu_item [OF m it] all
  have "item_value it \<in> {''list'', ''grid'', ''table''}"
    and "onChange it = ViewTypeMenu_onChange view (item_value it)"
    by auto
  then show "onChange it = Inr (view\<lparr>type := item_value it, layout := []\<rparr>)"
    by (auto simp: ViewTypeMenu_onChange_def)
qed

theorem ViewTypeMenu_switches_layout_witness:
  "ViewTypeMenu_onChange example_view ''grid''
     = Inr \<lparr>type = ''grid'', perPage = 20, page = 3,
            sort' = Some \<lparr>field = ''title'', direction = ''asc''\<rparr>,
            hiddenFields = Some [''author''], layout = []\<rparr>
   \<and> ViewTypeMenu_onChange example_view ''calendar'' = Inl (Error ''Invalid dataview'')
   \<and> map layout_type (availableViews example_layouts None) = [''table'', ''grid'', ''list'']
   \<and> onChange (items (the (ViewTypeMenu example_layouts example_view None)) ! 2)
     = Inr \<lparr>type = ''list'', perPage = 20, page = 3,
            sort' = Some \<lparr>field = ''title'', direction = ''asc''\<rparr>,
            hiddenFields = Some [''author''], layout = []\<rparr>"
proof -
  let ?vm = "the (ViewTypeMenu example_layouts example_view None)"
  have av: "map layout_type (availableViews example_layouts None) = [''table'', ''grid'', ''list'']"
    by (simp add: availableViews_def example_layouts_def)
  have all: "\<forall>l \<in> set (availableViews example_layouts None).
               layout_type l \<in> {''list'', ''grid'', ''table''}"
    by (simp add: availableViews_def example_layouts_def)
  have v1: "ViewTypeMenu example_layouts example_view None = Some ?vm"
    by (simp add: ViewTypeMenu_example)
  have v2: "items ?vm ! 2 \<in> set (items ?vm)"
    by (simp add: ViewTypeMenu_example)
  have v3: "item_value (items ?vm ! 2) = ''list''"
    by (simp add: ViewTypeMenu_example)
  from ViewTypeMenu_switches_layout [of "''grid''" example_view example_layouts None]
  have a: "ViewTypeMenu_onChange example_view ''grid''
      = Inr (example_view\<lparr>type := ''grid'', layout := []\<rparr>)"
    by simp
  from ViewTypeMenu_switches_layout [of "''calendar''" example_view example_layouts None]
  have b: "ViewTypeMenu_onChange example_view ''calendar'' = Inl (Error ''Invalid dataview'')"
    by simp
  from ViewTypeMenu_switches_layout [of "''grid''" example_view example_layouts None] all v1 v2
  have "onChange (items ?vm ! 2)
      = Inr (example_view\<lparr>type := item_value (items ?vm ! 2), layout := []\<rparr>)"
    by blast
  with v3 have c: "onChange (items ?vm ! 2) = Inr (example_view\<lparr>type := ''list'', layout := []\<rparr>)"
    by simp
  show ?thesis
    unfolding a b c av by (simp add: example_view_def)
qed

text \<open>
  C8. The fields-visibility menu offers exactly the fields whose
  \<^verbatim>\<open>enableHiding\<close> is not \<^verbatim>\<open>false\<close> and whose id differs from the
  view's \<^verbatim>\<open>layout.mediaField\<close>, in the order of the field list; the sort menu
  offers exactly the fields whose \<^verbatim>\<open>enableSorting\<close> is not
  \<^verbatim>\<open>false\<close>. Each menu renders nothing exactly when its filtered list is empty.
\<close>

theorem menus_offer_filtered_fields:
  "(FieldsVisibilityMenu view flds = None \<longleftrightarrow>
      filter (\<lambda>f. enableHiding f \<noteq> Some False
                  \<and> JStr (id' f) \<noteq> member (layout view) ''mediaField'') flds = [])
   \<and> (\<forall>m. FieldsVisibilityMenu view flds = Some m \<longrightarrow>
         map item_value (items m) =
           map id' (filter (\<lambda>f. enableHiding f \<noteq> Some False
                                \<and> JStr (id' f) \<noteq> member (layout view) ''mediaField'') flds))
   \<and> (SortMenu SORTING_DIRECTIONS sortLabels flds view = None \<longleftrightarrow>
         filter (\<lambda>f. enableSorting f \<noteq> Some False) flds = [])
   \<and> (\<forall>m. SortMenu SORTING_DIRECTIONS sortLabels flds view = Some m \<longrightarrow>
         map submenu_key (items m) = map id' (filter (\<lambda>f. enableSorting f \<noteq> Some False) flds))"
  by (auto simp: FieldsVisibilityMenu_def hidableFields_def SortMenu_def sortableFields_def
      Let_def comp_def split: if_splits)

theorem menus_offer_filtered_fields_witness:
  "map item_value (items (the (FieldsVisibilityMenu example_view example_fields))) = [''author'']
   \<and> map submenu_key (items (the (SortMenu [''asc'', ''desc''] (\<lambda>d. d)
                                       example_fields example_view)))
     = [''title'', ''author'']
   \<and> FieldsVisibilityMenu example_view (take 1 example_fields) = None
   \<and> SortMenu [''asc'', ''desc''] (\<lambda>d. d) (drop 2 example_fields) example_view = None"
proof -
  let ?sm = "the (SortMenu [''asc'', ''desc''] (\<lambda>d. d) example_fields example_view)"
  let ?fm = "the (FieldsVisibilityMenu example_view example_fields)"
  note offered = menus_offer_filtered_fields
    [of example_view example_fields "[''asc'', ''desc'']" "\<lambda>d. d"]
  have s1: "SortMenu [''asc'', ''desc''] (\<lambda>d. d) example_fields example_view = Some ?sm"
    by (simp add: SortMenu_example)
  have f1: "FieldsVisibilityMenu example_view example_fields = Some ?fm"
    by (simp add: FieldsVisibilityMenu_example)
  from offered f1
  have "map item_value (items ?fm) =
      map id' (filter (\<lambda>f. enableHiding f \<noteq> Some False
                 \<and> JStr (id' f) \<noteq> member (layout example_view) ''mediaField'') example_fields)"
    by blast
  then have a: "map item_value (items ?fm) = [''author'']"
    by (simp add: example_fields_def example_view_def member_def)
  from offered s1
  have "map submenu_key (items ?sm)
      = map id' (filter (\<lambda>f. enableSorting f \<noteq> Some False) example_fields)"
    by blast
  then have b: "map submenu_key (items ?sm) = [''title'', ''author'']"
    by (simp add: example_fields_def)
  have "filter (\<lambda>f. enableHiding f \<noteq> Some False
            \<and> JStr (id' f) \<noteq> member (layout example_view) ''mediaField'')
          (take 1 example_fields) = []"
    by (simp add: example_fields_def)
  with menus_offer_filtered_fields [of example_view "take 1 example_fields"]
  have c: "FieldsVisibilityMenu example_view (take 1 example_fields) = None"
    by blast
  have "filter (\<lambda>f. enableSorting f \<noteq> Some False) (drop 2 example_fields) = []"
    by (simp add: example_fields_def)
  with menus_offer_filtered_fields
    [of example_view "drop 2 example_fields" "[''asc'', ''desc'']" "\<lambda>d. d"]
  have d: "SortMenu [''asc'', ''desc''] (\<lambda>d. d) (drop 2 example_fields) example_view = None"
    by blast
  from a b c d show ?thesis by simp
qed

lemma hidden_ids_toggle:
  "hidden_ids (FieldsVisibilityMenu_onChange view f) =
     (if id' f \<in> hidden_ids view then hidden_ids view - {id' f}
      else insert (id' f) (hidden_ids view))"
  by (auto simp: hidden_ids_def FieldsVisibilityMenu_onChange_def includes_opt_def
      split: option.splits)

text \<open>
  C10. Toggling a field's visibility twice gives a view that hides exactly the ids the
  original view hid; one toggle adds the id when it was absent and removes every
  occurrence of it when it was present. This holds for every view, with or without
  duplicates in its hidden-field list, and for an absent list as for the empty one.
\<close>

theorem toggle_visibility_involution:
  "hidden_ids (FieldsVisibilityMenu_onChange (FieldsVisibilityMenu_onChange view f) f)
     = hidden_ids view
   \<and> (id' f \<notin> hidden_ids view \<longrightarrow>
         hidden_ids (FieldsVisibilityMenu_onChange view f) = insert (id' f) (hidden_ids view))
   \<and> (id' f \<in> hidden_ids view \<longrightarrow>
         hidden_ids (FieldsVisibilityMenu_onChange view f) = hidden_ids view - {id' f})"
  by (auto simp: hidden_ids_toggle)

theorem toggle_visibility_involution_witness:
  "hidden_ids example_view = {''author''}
   \<and> hidden_ids (FieldsVisibilityMenu_onChange example_view (example_fields ! 1)) = {}
   \<and> hidden_ids (FieldsVisibilityMenu_onChange example_view (example_fields ! 0))
     = {''title'', ''author''}
   \<and> hidden_ids (FieldsVisibilityMenu_onChange
        (FieldsVisibilityMenu_onChange example_view (example_fields ! 1)) (example_fields ! 1))
     = {''author''}"
proof -
  have h: "hidden_ids example_view = {''author''}"
    by (simp add: hidden_ids_def example_view_def)
  have i0: "id' (example_fields ! 0) = ''title''"
    by (simp add: example_fields_def)
  have i1: "id' (example_fields ! 1) = ''author''"
    by (simp add: example_fields_def)
  have absent: "id' (example_fields ! 0) \<notin> hidden_ids example_view"
    unfolding h i0 by simp
  have present: "id' (example_fields ! 1) \<in> hidden_ids example_view"
    unfolding h i1 by simp
  from toggle_visibility_involution [of example_view "example_fields ! 0"] absent
  have a: "hidden_ids (FieldsVisibilityMenu_onChange example_view (example_fields ! 0))
      = insert (id' (example_fields ! 0)) (hidden_ids example_view)"
    by blast
  from toggle_visibility_involution [of example_view "example_fields ! 1"] present
  have b: "hidden_ids (FieldsVisibilityMenu_onChange example_view (example_fields ! 1))
      = hidden_ids example_view - {id' (example_fields ! 1)}"
    and c: "hidden_ids (FieldsVisibilityMenu_onChange
        (FieldsVisibilityMenu_onChange example_view (example_fields ! 1)) (example_fields ! 1))
      = hidden_ids example_view"
    by blast+
  show ?thesis
    unfolding a b c h i0 i1 by auto
qed

end
